theory Spec2Isabelle
  imports Main
begin

section \<open>JavaScript values, strings and objects\<close>

text \<open>
  Values that travel through the configuration layer (parameter defaults, call arguments).
  Numbers are modelled as integers; floating point (and \<open>NaN\<close>) is outside the model.
  An object is the list of its own entries in the order of \<open>Object.entries\<close>; its keys
  are distinct. \<open>JFunction name\<close> is the built-in function of that name, such as the
  methods that every object inherits from \<open>Object.prototype\<close>.
\<close>

datatype jsvalue =
    JUndefined
  | JNull
  | JBool bool
  | JNum int
  | JStr string
  | JArr "jsvalue list"
  | JObj "(string \<times> jsvalue) list"
  | JFunction string

text \<open>The members of \<open>(string | number)[]\<close>, the type of \<open>ParameterConfig.enum\<close>.\<close>

datatype enumval = EStr string | ENum int

fun enum_value :: "enumval \<Rightarrow> jsvalue" where
  "enum_value (EStr s) = JStr s"
| "enum_value (ENum n) = JNum n"

text \<open>\<open>typeof v === "number"\<close> on an enum member.\<close>

fun is_number :: "enumval \<Rightarrow> bool" where
  "is_number (ENum n) = True"
| "is_number (EStr s) = False"

text \<open>\<open>obj[k]\<close>: the value stored under a key, if any.\<close>

definition obj_get :: "(string \<times> 'a) list \<Rightarrow> string \<Rightarrow> 'a option" where
  "obj_get obj k = map_of obj k"

text \<open>\<open>obj[k] = v\<close>: an existing key keeps its place, a new key goes last.\<close>

fun obj_set :: "(string \<times> 'a) list \<Rightarrow> string \<Rightarrow> 'a \<Rightarrow> (string \<times> 'a) list" where
  "obj_set [] k v = [(k, v)]"
| "obj_set ((k', v') # rest) k v =
     (if k' = k then (k, v) # rest else (k', v') # obj_set rest k v)"

text \<open>Truthiness of an optional string (absent and \<open>""\<close> are falsy) and of an optional flag.\<close>

fun truthy_string :: "string option \<Rightarrow> bool" where
  "truthy_string None = False"
| "truthy_string (Some s) = (s \<noteq> [])"

fun truthy_flag :: "bool option \<Rightarrow> bool" where
  "truthy_flag None = False"
| "truthy_flag (Some b) = b"

section \<open>Parameter shapes (config.ts, \<open>ParameterConfig\<close>)\<close>

text \<open>
  The tag \<open>type\<close> is kept as a string, absent when the declaration has none, since the
  declarations are parsed from YAML and the validation code tests for tags outside the
  six that the interface lists.
\<close>

datatype ParameterConfig = ParameterConfig
  (p_type: "string option")
  (p_description: "string option")
  (p_required: "bool option")
  (p_default: "jsvalue option")
  (p_enum: "enumval list option")
  (p_items: "ParameterConfig option")
  (p_properties: "(string \<times> ParameterConfig) list option")

lemma size_p_items: "p_items p = Some it \<Longrightarrow> size it < size p"
  by (cases p) simp

lemma size_p_properties:
  "p_properties p = Some ps \<Longrightarrow> size_list (size_prod (\<lambda>_. 0) size) ps < size p"
  by (cases p) simp

section \<open>The wire schema compiler (config.ts, lines 619-711)\<close>

datatype JsonSchema = JsonSchema
  (s_type: "string option")
  (s_items: "JsonSchema option")
  (s_properties: "(string \<times> JsonSchema) list option")
  (s_required: "string list option")
  (s_additionalProperties: "bool option")
  (s_enum: "enumval list option")
  (s_description: "string option")
  (s_default: "jsvalue option")

text \<open>The object literal \<open>{}\<close> and the assignments to its keys.\<close>

definition empty_schema :: JsonSchema where
  "empty_schema = JsonSchema None None None None None None None None"

fun set_type :: "string \<Rightarrow> JsonSchema \<Rightarrow> JsonSchema" where
  "set_type v (JsonSchema t i p r a e d df) = JsonSchema (Some v) i p r a e d df"

fun set_items :: "JsonSchema \<Rightarrow> JsonSchema \<Rightarrow> JsonSchema" where
  "set_items v (JsonSchema t i p r a e d df) = JsonSchema t (Some v) p r a e d df"

fun set_properties :: "(string \<times> JsonSchema) list option \<Rightarrow> JsonSchema \<Rightarrow> JsonSchema" where
  "set_properties v (JsonSchema t i p r a e d df) = JsonSchema t i v r a e d df"

fun set_required :: "string list \<Rightarrow> JsonSchema \<Rightarrow> JsonSchema" where
  "set_required v (JsonSchema t i p r a e d df) = JsonSchema t i p (Some v) a e d df"

fun set_additionalProperties :: "bool \<Rightarrow> JsonSchema \<Rightarrow> JsonSchema" where
  "set_additionalProperties v (JsonSchema t i p r a e d df) = JsonSchema t i p r (Some v) e d df"

fun set_enum :: "enumval list \<Rightarrow> JsonSchema \<Rightarrow> JsonSchema" where
  "set_enum v (JsonSchema t i p r a e d df) = JsonSchema t i p r a (Some v) d df"

fun set_description :: "string \<Rightarrow> JsonSchema \<Rightarrow> JsonSchema" where
  "set_description v (JsonSchema t i p r a e d df) = JsonSchema t i p r a e (Some v) df"

fun set_default :: "jsvalue \<Rightarrow> JsonSchema \<Rightarrow> JsonSchema" where
  "set_default v (JsonSchema t i p r a e d df) = JsonSchema t i p r a e d (Some v)"

text \<open>
  \<open>convertParameterToJsonSchema\<close> and \<open>convertParametersToJsonSchema\<close> call each other;
  \<open>jsonSchemaEntries\<close> is the \<open>for\<close> loop of the latter, carrying \<open>properties\<close> and
  \<open>required\<close>. The \<open>switch\<close> has no \<open>default\<close> branch: a tag outside the six leaves
  the schema without a \<open>type\<close>.
\<close>

function convertParameterToJsonSchema :: "ParameterConfig \<Rightarrow> JsonSchema"
  and convertParametersToJsonSchema :: "(string \<times> ParameterConfig) list \<Rightarrow> JsonSchema"
  and jsonSchemaEntries ::
    "(string \<times> ParameterConfig) list \<Rightarrow> (string \<times> JsonSchema) list \<Rightarrow> string list
      \<Rightarrow> (string \<times> JsonSchema) list \<times> string list"
where
  "convertParameterToJsonSchema param =
    (let schema = empty_schema;
         schema =
          (if p_type param = Some ''string'' then set_type ''string'' schema
           else if p_type param = Some ''number'' then set_type ''number'' schema
           else if p_type param = Some ''boolean'' then set_type ''boolean'' schema
           else if p_type param = Some ''array'' then
             (case p_items param of
                Some items \<Rightarrow>
                  set_items (convertParameterToJsonSchema items) (set_type ''array'' schema)
              | None \<Rightarrow> set_items (set_type ''string'' empty_schema) (set_type ''array'' schema))
           else if p_type param = Some ''object'' then
             (case p_properties param of
                Some properties \<Rightarrow>
                  (let nestedSchema = convertParametersToJsonSchema properties;
                       schema = set_properties (s_properties nestedSchema) (set_type ''object'' schema)
                   in case s_required nestedSchema of
                        Some req \<Rightarrow> if length req > 0 then set_required req schema else schema
                      | None \<Rightarrow> schema)
              | None \<Rightarrow> set_additionalProperties True (set_type ''object'' schema))
           else if p_type param = Some ''enum'' then
             (case p_enum param of
                Some (firstValue # others) \<Rightarrow>
                  set_enum (firstValue # others)
                    (if is_number firstValue then set_type ''number'' schema
                     else set_type ''string'' schema)
              | _ \<Rightarrow> set_enum [] (set_type ''string'' schema))
           else schema);
         schema =
          (if truthy_string (p_description param)
           then set_description (the (p_description param)) schema else schema);
         schema =
          (case p_default param of Some d \<Rightarrow> set_default d schema | None \<Rightarrow> schema)
     in schema)"
| "convertParametersToJsonSchema parameters =
    (case jsonSchemaEntries parameters [] [] of
       (properties, required) \<Rightarrow>
         (let schema = set_properties (Some properties) (set_type ''object'' empty_schema)
          in if length required > 0 then set_required required schema else schema))"
| "jsonSchemaEntries [] properties required = (properties, required)"
| "jsonSchemaEntries ((name, param) # rest) properties required =
     jsonSchemaEntries rest
       (obj_set properties name (convertParameterToJsonSchema param))
       (if truthy_flag (p_required param) then required @ [name] else required)"
  by pat_completeness auto
termination
  by (relation "measure (\<lambda>x. case x of
         Inl p \<Rightarrow> 2 * size p
       | Inr (Inl ps) \<Rightarrow> 2 * size_list (size_prod (\<lambda>_. 0) size) ps + 1
       | Inr (Inr (ps, _, _)) \<Rightarrow> 2 * size_list (size_prod (\<lambda>_. 0) size) ps)")
     (auto dest: size_p_items size_p_properties)

section \<open>The validator compiler (config.ts, lines 713-815)\<close>

text \<open>
  The validators are built with the library zod (version 3), which is not part of the
  repository. \<open>ZodSchema\<close> is the tree of zod constructors that the code calls:
  \<open>z.string()\<close>, \<open>z.number()\<close>, \<open>z.boolean()\<close>, \<open>z.unknown()\<close>, \<open>z.array(s)\<close>,
  \<open>z.object(shape)\<close>, \<open>z.record(s)\<close>, \<open>z.literal(v)\<close>, \<open>z.union(options)\<close>,
  \<open>z.enum(values)\<close>, \<open>s.optional()\<close>, \<open>s.describe(text)\<close> and \<open>s.default(v)\<close>.
\<close>

datatype ZodSchema =
    ZodString
  | ZodNumber
  | ZodBoolean
  | ZodUnknown
  | ZodArray ZodSchema
  | ZodObject "(string \<times> ZodSchema) list"
  | ZodRecord ZodSchema
  | ZodLiteral enumval
  | ZodUnion "ZodSchema list"
  | ZodEnum "enumval list"
  | ZodOptional ZodSchema
  | ZodDescribe ZodSchema string
  | ZodDefault ZodSchema jsvalue

text \<open>
  The value a schema of \<open>z.object\<close> reads for a key: \<open>undefined\<close> when the input has no
  such key.
\<close>

definition prop_value :: "(string \<times> jsvalue) list \<Rightarrow> string \<Rightarrow> jsvalue" where
  "prop_value obj k = (case obj_get obj k of Some v \<Rightarrow> v | None \<Rightarrow> JUndefined)"

text \<open>
  Whether \<open>schema.safeParse(v)\<close> succeeds, after zod 3: a primitive schema checks the
  type of the input; an array checks every element; an object checks, for every key of
  its shape, the input's value under that key (\<open>undefined\<close> when missing) and ignores
  other keys; a record checks every value; a literal compares with \<open>===\<close>; a union needs
  one option to succeed; an enum needs a string among its values; an optional schema
  also takes \<open>undefined\<close>; a description changes nothing; a default replaces
  \<open>undefined\<close> by the default value and then checks the result against the inner schema.
\<close>

fun zod_accepts :: "ZodSchema \<Rightarrow> jsvalue \<Rightarrow> bool" where
  "zod_accepts ZodString v = (case v of JStr s \<Rightarrow> True | _ \<Rightarrow> False)"
| "zod_accepts ZodNumber v = (case v of JNum n \<Rightarrow> True | _ \<Rightarrow> False)"
| "zod_accepts ZodBoolean v = (case v of JBool b \<Rightarrow> True | _ \<Rightarrow> False)"
| "zod_accepts ZodUnknown v = True"
| "zod_accepts (ZodArray item) v =
     (case v of JArr xs \<Rightarrow> list_all (\<lambda>x. zod_accepts item x) xs | _ \<Rightarrow> False)"
| "zod_accepts (ZodObject shape) v =
     (case v of
        JObj obj \<Rightarrow> list_all (\<lambda>entry. zod_accepts (snd entry) (prop_value obj (fst entry))) shape
      | _ \<Rightarrow> False)"
| "zod_accepts (ZodRecord item) v =
     (case v of JObj obj \<Rightarrow> list_all (\<lambda>entry. zod_accepts item (snd entry)) obj | _ \<Rightarrow> False)"
| "zod_accepts (ZodLiteral l) v = (v = enum_value l)"
| "zod_accepts (ZodUnion options) v = list_ex (\<lambda>opt. zod_accepts opt v) options"
| "zod_accepts (ZodEnum values) v =
     (case v of JStr s \<Rightarrow> EStr s \<in> set values | _ \<Rightarrow> False)"
| "zod_accepts (ZodOptional inner) v = (v = JUndefined \<or> zod_accepts inner v)"
| "zod_accepts (ZodDescribe inner text) v = zod_accepts inner v"
| "zod_accepts (ZodDefault inner d) v = zod_accepts inner (if v = JUndefined then d else v)"

text \<open>
  \<open>convertParameterToZodSchema\<close> and \<open>convertParametersToZodSchema\<close> call each other;
  \<open>zodSchemaEntries\<close> is the \<open>for\<close> loop of the latter, carrying \<open>schemaObj\<close>.
\<close>

function convertParameterToZodSchema :: "ParameterConfig \<Rightarrow> ZodSchema"
  and convertParametersToZodSchema :: "(string \<times> ParameterConfig) list \<Rightarrow> (string \<times> ZodSchema) list"
  and zodSchemaEntries ::
    "(string \<times> ParameterConfig) list \<Rightarrow> (string \<times> ZodSchema) list \<Rightarrow> (string \<times> ZodSchema) list"
where
  "convertParameterToZodSchema param =
    (let schema =
          (if p_type param = Some ''string'' then ZodString
           else if p_type param = Some ''number'' then ZodNumber
           else if p_type param = Some ''boolean'' then ZodBoolean
           else if p_type param = Some ''array'' then
             (case p_items param of
                Some items \<Rightarrow> ZodArray (convertParameterToZodSchema items)
              | None \<Rightarrow> ZodArray ZodString)
           else if p_type param = Some ''object'' then
             (case p_properties param of
                Some properties \<Rightarrow>
                  (let propertySchemas = convertParametersToZodSchema properties
                   in ZodObject propertySchemas)
              | None \<Rightarrow> ZodRecord ZodUnknown)
           else if p_type param = Some ''enum'' then
             (case p_enum param of
                Some (firstValue # others) \<Rightarrow>
                  (if is_number firstValue
                   then ZodUnion (map (\<lambda>value. ZodLiteral value) (firstValue # others))
                   else ZodEnum (firstValue # others))
              | _ \<Rightarrow> ZodEnum [EStr []])
           else ZodString);
         schema =
          (if truthy_string (p_description param)
           then ZodDescribe schema (the (p_description param)) else schema);
         schema =
          (case p_default param of Some d \<Rightarrow> ZodDefault schema d | None \<Rightarrow> schema)
     in schema)"
| "convertParametersToZodSchema parameters = zodSchemaEntries parameters []"
| "zodSchemaEntries [] schemaObj = schemaObj"
| "zodSchemaEntries ((name, param) # rest) schemaObj =
     (let schema = convertParameterToZodSchema param;
          schema = (if \<not> truthy_flag (p_required param) then ZodOptional schema else schema)
      in zodSchemaEntries rest (obj_set schemaObj name schema))"
  by pat_completeness auto
termination
  by (relation "measure (\<lambda>x. case x of
         Inl p \<Rightarrow> 2 * size p
       | Inr (Inl ps) \<Rightarrow> 2 * size_list (size_prod (\<lambda>_. 0) size) ps + 1
       | Inr (Inr (ps, _)) \<Rightarrow> 2 * size_list (size_prod (\<lambda>_. 0) size) ps)")
     (auto dest: size_p_items size_p_properties)

declare convertParameterToJsonSchema.simps [simp del]
declare convertParameterToZodSchema.simps [simp del]

section \<open>Strings: \<open>trim\<close>, \<open>split(",")\<close>, \<open>join\<close>, sets of strings\<close>

text \<open>
  Strings are lists of bytes; the white space that \<open>trim\<close> and the pattern \<open>\s\<close> remove is
  the ASCII white space (tab, line feed, vertical tab, form feed, carriage return, space).
\<close>

definition is_space :: "char \<Rightarrow> bool" where
  "is_space c = (c \<in> set [CHR 0x09, CHR 0x0A, CHR 0x0B, CHR 0x0C, CHR 0x0D, CHR 0x20])"

definition trim :: "string \<Rightarrow> string" where
  "trim s = rev (dropWhile is_space (rev (dropWhile is_space s)))"

text \<open>\<open>s.split(",")\<close>: never empty; the empty string gives one empty piece.\<close>

fun split_comma :: "string \<Rightarrow> string list" where
  "split_comma [] = [[]]"
| "split_comma (c # cs) =
     (if c = CHR '','' then [] # split_comma cs
      else (case split_comma cs of
              w # ws \<Rightarrow> (c # w) # ws
            | [] \<Rightarrow> [[c]]))"

fun join :: "string \<Rightarrow> string list \<Rightarrow> string" where
  "join sep [] = []"
| "join sep [x] = x"
| "join sep (x # y # rest) = x @ sep @ join sep (y # rest)"

text \<open>
  \<open>Array.from(new Set(xs))\<close>: a JavaScript \<open>Set\<close> keeps its members in the order of their
  first insertion.
\<close>

fun set_add_all :: "'a list \<Rightarrow> 'a list \<Rightarrow> 'a list" where
  "set_add_all members [] = members"
| "set_add_all members (x # xs) =
     set_add_all (if x \<in> set members then members else members @ [x]) xs"

definition array_from_set :: "'a list \<Rightarrow> 'a list" where
  "array_from_set xs = set_add_all [] xs"

text \<open>\<open>Object.fromEntries(entries)\<close>: a later entry overwrites an earlier one with its key.\<close>

fun fromEntries_into :: "(string \<times> 'a) list \<Rightarrow> (string \<times> 'a) list \<Rightarrow> (string \<times> 'a) list" where
  "fromEntries_into obj [] = obj"
| "fromEntries_into obj ((k, v) # rest) = fromEntries_into (obj_set obj k v) rest"

definition fromEntries :: "(string \<times> 'a) list \<Rightarrow> (string \<times> 'a) list" where
  "fromEntries entries = fromEntries_into [] entries"

section \<open>The declaration merge engine (config.ts, lines 34-183)\<close>

text \<open>
  \<open>ToolConfig\<close>, as an entry of a \<open>tools\<close> mapping: every key may be missing in a
  declaration file (the key of the mapping is the tool's name), so every field is optional.
\<close>

record ToolConfig =
  t_name :: "string option"
  t_description :: "string option"
  t_prompt :: "string option"
  t_optional :: "bool option"
  t_parameters :: "(string \<times> ParameterConfig) list option"

text \<open>A value of a \<open>tools\<close> mapping is \<open>string | ToolConfig\<close>.\<close>

datatype ToolEntry = ToolDescription string | ToolRecord ToolConfig

text \<open>\<open>PromptConfig.tools\<close> is \<open>Record<string, string | ToolConfig> | string\<close>.\<close>

datatype Tools = ToolsString string | ToolsObject "(string \<times> ToolEntry) list"

datatype ToolMode = Sequential | Situational

record PromptConfig =
  c_prompt :: "string option"
  c_context :: "string option"
  c_tools :: "Tools option"
  c_toolMode :: "ToolMode option"
  c_description :: "string option"
  c_disabled :: "bool option"
  c_name :: "string option"
  c_parameters :: "(string \<times> ParameterConfig) list option"

text \<open>\<open>DevToolsConfig\<close>: \<open>[key: string]: PromptConfig | undefined\<close>.\<close>

type_synonym DevToolsConfig = "(string \<times> PromptConfig option) list"

text \<open>One key of an object spread \<open>{...a, ...b}\<close>: the key of \<open>b\<close> when \<open>b\<close> has it.\<close>

fun spread_field :: "'a option \<Rightarrow> 'a option \<Rightarrow> 'a option" where
  "spread_field a None = a"
| "spread_field a (Some v) = Some v"

definition spread_ToolConfig :: "ToolConfig \<Rightarrow> ToolConfig \<Rightarrow> ToolConfig" where
  "spread_ToolConfig a b =
     \<lparr> t_name = spread_field (t_name a) (t_name b),
       t_description = spread_field (t_description a) (t_description b),
       t_prompt = spread_field (t_prompt a) (t_prompt b),
       t_optional = spread_field (t_optional a) (t_optional b),
       t_parameters = spread_field (t_parameters a) (t_parameters b) \<rparr>"


text \<open>\<open>!tools\<close>: \<open>undefined\<close> and the empty string are falsy, an object never is.\<close>

fun falsy_tools :: "Tools option \<Rightarrow> bool" where
  "falsy_tools None = True"
| "falsy_tools (Some (ToolsString s)) = (s = [])"
| "falsy_tools (Some (ToolsObject obj)) = False"

text \<open>
  The conversion of one side of \<open>mergeTools\<close> to the object format: a string becomes
  \<open>Object.fromEntries(s.split(",").map((t) => [t.trim(), ""]))\<close>.
\<close>

fun tools_object :: "Tools \<Rightarrow> (string \<times> ToolEntry) list" where
  "tools_object (ToolsString s) =
     fromEntries (map (\<lambda>t. (trim t, ToolDescription [])) (split_comma s))"
| "tools_object (ToolsObject obj) = obj"

text \<open>The \<open>for\<close> loop of \<open>mergeTools\<close> over \<open>Object.entries(sourceObj)\<close>.\<close>

fun mergeToolEntries :: "(string \<times> ToolEntry) list \<Rightarrow> (string \<times> ToolEntry) list \<Rightarrow> (string \<times> ToolEntry) list" where
  "mergeToolEntries result [] = result"
| "mergeToolEntries result ((key, value) # rest) =
     mergeToolEntries
       (case (obj_get result key, value) of
          (Some (ToolRecord old), ToolRecord new) \<Rightarrow>
            obj_set result key (ToolRecord (spread_ToolConfig old new))
        | _ \<Rightarrow> obj_set result key value)
       rest"

fun mergeTools :: "Tools option \<Rightarrow> Tools option \<Rightarrow> Tools option" where
  "mergeTools targetTools sourceTools =
     (if falsy_tools targetTools \<and> falsy_tools sourceTools then None
      else if falsy_tools targetTools then sourceTools
      else if falsy_tools sourceTools then targetTools
      else
        (case (targetTools, sourceTools) of
           (Some (ToolsString t), Some (ToolsString s)) \<Rightarrow>
             Some (ToolsString
               (join '', '' (array_from_set (map trim (split_comma t) @ map trim (split_comma s)))))
         | (Some t, Some s) \<Rightarrow>
             (let targetObj = tools_object t;
                  sourceObj = tools_object s;
                  result = targetObj
              in Some (ToolsObject (mergeToolEntries result sourceObj)))
         | _ \<Rightarrow> None))"



section \<open>Validation of a tool's declaration (config.ts, lines 453-617)\<close>

definition validTypes :: "string list" where
  "validTypes = [''string'', ''number'', ''boolean'', ''array'', ''object'', ''enum'']"

text \<open>\<open>!param.type\<close>: the tag is missing or the empty string.\<close>

fun no_type :: "string option \<Rightarrow> bool" where
  "no_type None = True"
| "no_type (Some t) = (t = [])"

text \<open>\<open>!param.enum || !Array.isArray(param.enum) || param.enum.length === 0\<close>.\<close>

fun no_enum_values :: "enumval list option \<Rightarrow> bool" where
  "no_enum_values None = True"
| "no_enum_values (Some vs) = (vs = [])"

text \<open>A string between double quotes, as the messages show names.\<close>

definition quoted :: "string \<Rightarrow> string" where
  "quoted s = [CHR 0x22] @ s @ [CHR 0x22]"

text \<open>
  \<open>validateNestedParameter\<close>; \<open>validateNestedProperties\<close> is its \<open>for\<close> loop over
  \<open>Object.entries(param.properties)\<close> and \<open>validateItems\<close> its check of \<open>param.items\<close>.
  A result \<open>None\<close> is \<open>null\<close>, \<open>Some message\<close> an error message.
\<close>

function validateNestedParameter :: "ParameterConfig \<Rightarrow> string \<Rightarrow> string option"
  and validateNestedProperties :: "(string \<times> ParameterConfig) list \<Rightarrow> string \<Rightarrow> string option"
  and validateItems :: "ParameterConfig \<Rightarrow> string \<Rightarrow> string option"
where
  "validateNestedParameter param path =
    (if p_type param = Some ''enum'' \<and> no_enum_values (p_enum param) then
       Some (''Parameter '' @ quoted path @ '' of type '' @ quoted ''enum''
             @ '' must have a non-empty enum array'')
     else
       (case (if p_type param = Some ''object''
              then (case p_properties param of
                      Some properties \<Rightarrow> validateNestedProperties properties path
                    | None \<Rightarrow> None)
              else None) of
          Some message \<Rightarrow> Some message
        | None \<Rightarrow>
            (if p_type param = Some ''array''
             then (case p_items param of
                     Some items \<Rightarrow> validateItems items path
                   | None \<Rightarrow> None)
             else None)))"
| "validateNestedProperties [] path = None"
| "validateNestedProperties ((nestedName, nestedParam) # rest) path =
    (if no_type (p_type nestedParam) then
       Some (''Nested parameter '' @ quoted nestedName @ '' in '' @ quoted path
             @ '' is missing type property'')
     else if the (p_type nestedParam) \<notin> set validTypes then
       Some (''Nested parameter '' @ quoted nestedName @ '' in '' @ quoted path
             @ '' has invalid type '' @ quoted (the (p_type nestedParam)))
     else
       (case validateNestedParameter nestedParam (path @ ''.'' @ nestedName) of
          Some nestedValidation \<Rightarrow> Some nestedValidation
        | None \<Rightarrow> validateNestedProperties rest path))"
| "validateItems items path =
    (if no_type (p_type items) then
       Some (''Items in array parameter '' @ quoted path @ '' must specify a type'')
     else if the (p_type items) \<notin> set validTypes then
       Some (''Items in array parameter '' @ quoted path @ '' have invalid type ''
             @ quoted (the (p_type items)))
     else validateNestedParameter items (path @ '' items''))"
  by pat_completeness auto
termination
  by (relation "measure (\<lambda>x. case x of
         Inl (p, _) \<Rightarrow> 2 * size p
       | Inr (Inl (ps, _)) \<Rightarrow> 2 * size_list (size_prod (\<lambda>_. 0) size) ps + 1
       | Inr (Inr (p, _)) \<Rightarrow> 2 * size p + 1)")
     (auto dest: size_p_items size_p_properties)

declare validateNestedParameter.simps [simp del]
declare validateItems.simps [simp del]

text \<open>
  The \<open>for\<close> loop of \<open>validateToolConfig\<close> over \<open>Object.entries(toolConfig.parameters)\<close>.
  Its inner loop over the properties of an object and its check of the items of an array
  are, statement by statement, those of \<open>validateNestedParameter\<close> with \<open>paramName\<close> for
  \<open>path\<close>, so the model calls the same two functions.
\<close>

fun validateParameters :: "(string \<times> ParameterConfig) list \<Rightarrow> string option" where
  "validateParameters [] = None"
| "validateParameters ((paramName, param) # rest) =
    (if no_type (p_type param) then
       Some (''Parameter '' @ quoted paramName @ '' is missing type property'')
     else if the (p_type param) \<notin> set validTypes then
       Some (''Parameter '' @ quoted paramName @ '' has invalid type ''
             @ quoted (the (p_type param)))
     else if p_type param = Some ''enum'' \<and> no_enum_values (p_enum param) then
       Some (''Parameter '' @ quoted paramName @ '' of type '' @ quoted ''enum''
             @ '' must have a non-empty enum array'')
     else
       (case (if p_type param = Some ''object''
              then (case p_properties param of
                      Some properties \<Rightarrow> validateNestedProperties properties paramName
                    | None \<Rightarrow> None)
              else None) of
          Some message \<Rightarrow> Some message
        | None \<Rightarrow>
            (case (if p_type param = Some ''array''
                   then (case p_items param of
                           Some items \<Rightarrow> validateItems items paramName
                         | None \<Rightarrow> None)
                   else None) of
               Some message \<Rightarrow> Some message
             | None \<Rightarrow> validateParameters rest)))"

text \<open>
  \<open>validateToolConfig\<close>. The \<open>catch\<close> branch answers exceptions, which nothing in the
  \<open>try\<close> block raises on a configuration of the declared shape.
\<close>

definition validateToolConfig :: "DevToolsConfig \<Rightarrow> string \<Rightarrow> string option" where
  "validateToolConfig config toolName =
    (case obj_get config toolName of
       Some (Some toolConfig) \<Rightarrow>
         (case c_parameters toolConfig of
            Some parameters \<Rightarrow> validateParameters parameters
          | None \<Rightarrow> None)
     | _ \<Rightarrow> Some (''Tool '' @ quoted toolName @ '' not found in configuration''))"

section \<open>The prompt template engine (utils.ts, lines 82-203)\<close>

subsection \<open>\<open>String(value)\<close>\<close>

text \<open>The decimal digits of a natural number, and \<open>String(n)\<close> for an integer \<open>n\<close>.\<close>

function decimal_digits :: "nat \<Rightarrow> string" where
  "decimal_digits n =
     (if 10 \<le> n then decimal_digits (n div 10) @ [''0123456789'' ! (n mod 10)]
      else [''0123456789'' ! n])"
  by pat_completeness auto
termination
  by (relation "measure id") auto

declare decimal_digits.simps [simp del]

text \<open>
  \<open>String(n)\<close> for an integer \<open>n\<close>: its decimal digits below \<open>10^21\<close> in magnitude.
  From there on JavaScript prints the exponent notation of the double, which the model
  does not have: the result is \<open>None\<close>.
\<close>

definition number_String :: "int \<Rightarrow> string option" where
  "number_String i =
     (if 10 ^ 21 \<le> \<bar>i\<bar> then None
      else if 0 \<le> i then Some (decimal_digits (nat i))
      else Some (CHR ''-'' # decimal_digits (nat (- i))))"

text \<open>
  \<open>String(v)\<close>: an array joins the strings of its elements with commas, \<open>null\<close> and
  \<open>undefined\<close> elements giving the empty string; an object gives \<open>[object Object]\<close>; a
  built-in function gives its source text as Node prints it. The result is \<open>None\<close> where
  the string of a number is.
\<close>

fun js_String :: "jsvalue \<Rightarrow> string option" where
  "js_String JUndefined = Some ''undefined''"
| "js_String JNull = Some ''null''"
| "js_String (JBool b) = Some (if b then ''true'' else ''false'')"
| "js_String (JNum n) = number_String n"
| "js_String (JStr s) = Some s"
| "js_String (JArr xs) =
     (let parts = map (\<lambda>x. if x = JUndefined \<or> x = JNull then Some [] else js_String x) xs
      in if None \<in> set parts then None else Some (join '','' (map the parts)))"
| "js_String (JObj obj) = Some ''[object Object]''"
| "js_String (JFunction name) = Some (''function '' @ name @ ''() { [native code] }'')"

subsection \<open>Properties of a plain object\<close>

text \<open>
  The parameters are a plain object, so besides its own keys it has the properties of
  \<open>Object.prototype\<close>: the built-in methods, and the accessor \<open>__proto__\<close>, whose value
  is the prototype object itself.
\<close>

definition object_prototype :: "(string \<times> jsvalue) list" where
  "object_prototype =
     [(''constructor'', JFunction ''Object''),
      (''__defineGetter__'', JFunction ''__defineGetter__''),
      (''__defineSetter__'', JFunction ''__defineSetter__''),
      (''hasOwnProperty'', JFunction ''hasOwnProperty''),
      (''__lookupGetter__'', JFunction ''__lookupGetter__''),
      (''__lookupSetter__'', JFunction ''__lookupSetter__''),
      (''isPrototypeOf'', JFunction ''isPrototypeOf''),
      (''propertyIsEnumerable'', JFunction ''propertyIsEnumerable''),
      (''toString'', JFunction ''toString''),
      (''valueOf'', JFunction ''valueOf''),
      (''__proto__'', JObj []),
      (''toLocaleString'', JFunction ''toLocaleString'')]"

text \<open>\<open>name in obj\<close>: an own key or an inherited one.\<close>

definition has_property :: "(string \<times> jsvalue) list \<Rightarrow> string \<Rightarrow> bool" where
  "has_property obj name = (obj_get obj name \<noteq> None \<or> obj_get object_prototype name \<noteq> None)"

text \<open>\<open>obj[name]\<close>: the own value first, then the inherited one.\<close>

definition get_property :: "(string \<times> jsvalue) list \<Rightarrow> string \<Rightarrow> jsvalue" where
  "get_property obj name =
     (case obj_get obj name of
        Some v \<Rightarrow> v
      | None \<Rightarrow> (case obj_get object_prototype name of Some v \<Rightarrow> v | None \<Rightarrow> JUndefined))"

subsection \<open>The pattern \<open>/\{\{\s*([^}]+)\s*\}\}/g\<close>\<close>

text \<open>
  The attempts of the backtracking matcher on the text after an opening \<open>{{\<close>, in the
  order in which it makes them: each quantifier is greedy, so the first \<open>\s*\<close> takes \<open>i\<close>
  characters, most first; for each, the group \<open>[^}]+\<close> takes \<open>j \<ge> 1\<close> characters, most
  first; for each, the second \<open>\s*\<close> takes \<open>k\<close> characters, most first; the attempt
  succeeds when \<open>}}\<close> follows. An attempt is listed as the group's text and the text
  after the match.
\<close>

definition match_attempts :: "string \<Rightarrow> (string \<times> string) list" where
  "match_attempts r =
     concat (map (\<lambda>i.
       concat (map (\<lambda>j.
         concat (map (\<lambda>k.
           if take 2 (drop k (drop j (drop i r))) = ''}}''
           then [(take j (drop i r), drop 2 (drop k (drop j (drop i r))))]
           else [])
           (rev [0..<Suc (length (takeWhile is_space (drop j (drop i r))))])))
         (rev [1..<Suc (length (takeWhile (\<lambda>c. c \<noteq> CHR ''}'') (drop i r)))])))
       (rev [0..<Suc (length (takeWhile is_space r))]))"

text \<open>
  A match of the pattern at the start of a string: the matched text, the text of the group
  and the text after the match.
\<close>

definition match_placeholder :: "string \<Rightarrow> (string \<times> string \<times> string) option" where
  "match_placeholder s =
     (if take 2 s = ''{{'' then
        (case match_attempts (drop 2 s) of
           [] \<Rightarrow> None
         | (paramName, rest) # others \<Rightarrow> Some (take (length s - length rest) s, paramName, rest))
      else None)"

lemma match_attempts_shorter: "(g, rest) \<in> set (match_attempts r) \<Longrightarrow> length rest \<le> length r"
  by (auto simp: match_attempts_def split: if_splits)

lemma match_placeholder_shorter:
  assumes "match_placeholder s = Some (m, g, rest)"
  shows "length rest < length s"
proof -
  from assms have two: "take 2 s = ''{{''" and
    att: "\<exists>others. match_attempts (drop 2 s) = (g, rest) # others"
    by (auto simp: match_placeholder_def split: if_splits list.splits)
  from att have "(g, rest) \<in> set (match_attempts (drop 2 s))" by auto
  then have "length rest \<le> length (drop 2 s)" by (rule match_attempts_shorter)
  moreover from two have "2 \<le> length s"
    by (cases s; cases "tl s") auto
  ultimately show ?thesis by simp
qed

subsection \<open>\<open>processTemplate\<close>\<close>

text \<open>\<open>usedParams.add(name)\<close> on a set kept in insertion order.\<close>

definition set_add :: "'a list \<Rightarrow> 'a \<Rightarrow> 'a list" where
  "set_add members x = (if x \<in> set members then members else members @ [x])"

text \<open>
  \<open>template.replace(pattern, callback)\<close> with the global flag: the matches are found from
  left to right, each search starting after the previous match; the callback gives the
  replacement and records the names it used. The callback tests \<open>trimmedName in params\<close>,
  which holds for inherited names too. The result is \<open>None\<close> where \<open>String\<close> of a value
  is.
\<close>

function replace_placeholders ::
  "(string \<times> jsvalue) list \<Rightarrow> string \<Rightarrow> string list \<Rightarrow> (string \<times> string list) option"
where
  "replace_placeholders params [] usedParams = Some ([], usedParams)"
| "replace_placeholders params (c # cs) usedParams =
     (case match_placeholder (c # cs) of
        Some (match, paramName, rest) \<Rightarrow>
          (let trimmedName = trim paramName in
           if has_property params trimmedName then
             (case js_String (get_property params trimmedName) of
                Some replacement \<Rightarrow>
                  (case replace_placeholders params rest (set_add usedParams trimmedName) of
                     Some (out, used) \<Rightarrow> Some (replacement @ out, used)
                   | None \<Rightarrow> None)
              | None \<Rightarrow> None)
           else
             (case replace_placeholders params rest usedParams of
                Some (out, used) \<Rightarrow> Some (match @ out, used)
              | None \<Rightarrow> None))
      | None \<Rightarrow>
          (case replace_placeholders params cs usedParams of
             Some (out, used) \<Rightarrow> Some (c # out, used)
           | None \<Rightarrow> None))"
  by pat_completeness auto
termination
  by (relation "measure (\<lambda>(params, s, used). length s)")
     (auto dest: match_placeholder_shorter)

declare replace_placeholders.simps(2) [simp del]

record TemplateResult =
  result :: string
  usedParams :: "string list"

text \<open>
  \<open>processTemplate\<close>; a missing template and missing parameters are \<open>None\<close> as
  arguments. The result is \<open>None\<close> where the replacement is.
\<close>

definition processTemplate ::
  "string option \<Rightarrow> (string \<times> jsvalue) list option \<Rightarrow> TemplateResult option" where
  "processTemplate template params =
     (case template of
        None \<Rightarrow> Some \<lparr> result = [], usedParams = [] \<rparr>
      | Some text \<Rightarrow>
          (case params of
             None \<Rightarrow> Some \<lparr> result = text, usedParams = [] \<rparr>
           | Some ps \<Rightarrow>
               if length (map fst ps) = 0 then Some \<lparr> result = text, usedParams = [] \<rparr>
               else (case replace_placeholders ps text [] of
                       Some (out, used) \<Rightarrow> Some \<lparr> result = out, usedParams = used \<rparr>
                     | None \<Rightarrow> None)))"

subsection \<open>\<open>appendFormattedTools\<close>\<close>

record ToolItem =
  i_name :: string
  i_description :: "string option"
  i_prompt :: "string option"
  i_optional :: "bool option"

text \<open>
  What one turn of either \<open>for\<close> loop appends after the tool's name; the two loops have
  the same statements here.
\<close>

definition appendToolDetails :: "string \<Rightarrow> ToolItem \<Rightarrow> string" where
  "appendToolDetails text tool =
    (let prompt = truthy_string (i_prompt tool);
         description = truthy_string (i_description tool);
         resultText = text;
         resultText =
           (if (\<not> prompt \<and> description) \<or> (prompt \<and> description)
            then resultText @ '': '' else resultText);
         resultText =
           (if description then resultText @ the (i_description tool) else resultText);
         resultText = (if prompt \<and> description then resultText @ '' - '' else resultText);
         resultText = (if prompt \<and> \<not> description then resultText @ '': '' else resultText);
         resultText = (if prompt then resultText @ the (i_prompt tool) else resultText);
         resultText =
           (if truthy_flag (i_optional tool) then resultText @ '' (Optional)'' else resultText)
     in resultText @ [CHR 0x0A])"

text \<open>The loop of the sequential mode, over \<open>toolsList.entries()\<close> from \<open>index\<close> on.\<close>

fun appendSequential :: "string \<Rightarrow> nat \<Rightarrow> ToolItem list \<Rightarrow> string" where
  "appendSequential resultText index [] = resultText"
| "appendSequential resultText index (tool # rest) =
     appendSequential
       (appendToolDetails (resultText @ decimal_digits (index + 1) @ ''. '' @ i_name tool) tool)
       (index + 1) rest"

text \<open>The loop of the other mode.\<close>

fun appendSituational :: "string \<Rightarrow> ToolItem list \<Rightarrow> string" where
  "appendSituational resultText [] = resultText"
| "appendSituational resultText (tool # rest) =
     appendSituational (appendToolDetails (resultText @ ''- '' @ i_name tool) tool) rest"

definition sequential_intro :: string where
  "sequential_intro =
     ''If all required user input/feedback is acquired or if no input/feedback is needed, ''
     @ ''execute this exact sequence of tools to complete this task:'' @ [CHR 0x0A, CHR 0x0A]"

definition situational_intro :: string where
  "situational_intro =
     ''Use these tools as needed to complete the user'' @ [CHR 0x27] @ ''s request:''
     @ [CHR 0x0A, CHR 0x0A]"

definition next_steps_note :: string where
  "next_steps_note =
     [CHR 0x0A] @ ''After using each tool, return a '' @ [CHR 0x27] @ ''Next Steps''
     @ [CHR 0x27] @ '' section with a list of the next steps to take / remaining tools ''
     @ ''to invoke along with each tool'' @ [CHR 0x27] @ ''s prompt/description and ''
     @ [CHR 0x27] @ ''optional'' @ [CHR 0x27] @ '' flag if present.''"

definition appendFormattedTools :: "string \<Rightarrow> ToolItem list \<Rightarrow> ToolMode option \<Rightarrow> string" where
  "appendFormattedTools baseText toolsList toolMode =
    (if length toolsList = 0 then baseText
     else
       (let resultText = baseText @ [CHR 0x0A, CHR 0x0A] @ ''## Available Tools'' @ [CHR 0x0A];
            resultText =
              (if toolMode = Some Sequential
               then appendSequential (resultText @ sequential_intro) 0 toolsList
               else appendSituational (resultText @ situational_intro) toolsList)
        in resultText @ next_steps_note))"

section \<open>Notions used in the statements\<close>

text \<open>
  The value that a compiled validator checks for an input: an absent input (\<open>undefined\<close>)
  is replaced by the default that the shape declares, if it declares one.
\<close>

definition effective_input :: "ParameterConfig \<Rightarrow> jsvalue \<Rightarrow> jsvalue" where
  "effective_input p v =
     (case p_default p of Some d \<Rightarrow> (if v = JUndefined then d else v) | None \<Rightarrow> v)"

text \<open>A shape without its \<open>description\<close> and \<open>default\<close>.\<close>

definition without_metadata :: "ParameterConfig \<Rightarrow> ParameterConfig" where
  "without_metadata p =
     ParameterConfig (p_type p) None (p_required p) None (p_enum p) (p_items p) (p_properties p)"

text \<open>The description that the wire schema shows: a non-empty one.\<close>

definition copied_description :: "ParameterConfig \<Rightarrow> string option" where
  "copied_description p = (if truthy_string (p_description p) then p_description p else None)"

text \<open>The validator stored for a named parameter: optional unless the shape is required.\<close>

definition property_schema :: "ParameterConfig \<Rightarrow> ZodSchema" where
  "property_schema p =
     (if truthy_flag (p_required p) then convertParameterToZodSchema p
      else ZodOptional (convertParameterToZodSchema p))"

section \<open>Facts about the two compilers\<close>

lemma zod_accepts_effective:
  "zod_accepts (convertParameterToZodSchema p) v
   = zod_accepts (convertParameterToZodSchema (without_metadata p)) (effective_input p v)"
  by (cases p)
     (simp add: convertParameterToZodSchema.simps without_metadata_def effective_input_def Let_def
           split: option.splits)

lemma list_ex_literal:
  "list_ex (\<lambda>opt. zod_accepts opt v) (map ZodLiteral vs) = (v \<in> enum_value ` set vs)"
  by (induction vs) auto

lemma enum_value_defined: "enum_value e \<noteq> JUndefined"
  by (cases e) simp_all

lemma zod_enum_core:
  "p_type p = Some ''enum'' \<Longrightarrow> p_enum p = Some (first # others) \<Longrightarrow>
   convertParameterToZodSchema (without_metadata p)
   = (if is_number first then ZodUnion (map ZodLiteral (first # others))
      else ZodEnum (first # others))"
  by (simp add: without_metadata_def convertParameterToZodSchema.simps)

lemma zod_empty_enum_core:
  "p_type p = Some ''enum'' \<Longrightarrow> no_enum_values (p_enum p) \<Longrightarrow>
   convertParameterToZodSchema (without_metadata p) = ZodEnum [EStr []]"
  by (cases "p_enum p"; simp add: without_metadata_def convertParameterToZodSchema.simps)

lemma zod_unknown_tag_core:
  "p_type p \<notin> Some ` set validTypes \<Longrightarrow>
   convertParameterToZodSchema (without_metadata p) = ZodString"
  by (simp add: without_metadata_def convertParameterToZodSchema.simps validTypes_def)

text \<open>Without a default, no compiled validator takes an absent input.\<close>

lemma zod_core_rejects_undefined:
  "\<not> zod_accepts (convertParameterToZodSchema (without_metadata p)) JUndefined"
  by (auto simp: without_metadata_def convertParameterToZodSchema.simps list_ex_literal Let_def
      enum_value_defined enum_value_defined[symmetric] image_iff
      split: option.splits list.splits)

lemma json_enum:
  "p_type p = Some ''enum'' \<Longrightarrow> p_enum p = Some (first # others) \<Longrightarrow>
   convertParameterToJsonSchema p
   = JsonSchema (Some (if is_number first then ''number'' else ''string'')) None None None None
       (Some (first # others)) (copied_description p) (p_default p)"
  by (cases "p_description p"; cases "p_default p")
     (simp_all add: convertParameterToJsonSchema.simps empty_schema_def copied_description_def)

lemma json_empty_enum:
  "p_type p = Some ''enum'' \<Longrightarrow> no_enum_values (p_enum p) \<Longrightarrow>
   convertParameterToJsonSchema p
   = JsonSchema (Some ''string'') None None None None (Some []) (copied_description p)
       (p_default p)"
  by (cases "p_description p"; cases "p_default p"; cases "p_enum p")
     (simp_all add: convertParameterToJsonSchema.simps empty_schema_def copied_description_def)

text \<open>
  A tag outside the six: the wire schema has no \<open>type\<close> at all, the validator is the one
  of a string.
\<close>

lemma json_unknown_tag:
  "p_type p \<notin> Some ` set validTypes \<Longrightarrow>
   convertParameterToJsonSchema p
   = JsonSchema None None None None None None (copied_description p) (p_default p)"
  by (cases "p_description p"; cases "p_default p")
     (simp_all add: convertParameterToJsonSchema.simps empty_schema_def copied_description_def
        validTypes_def)

lemma zod_unknown_tag:
  "p_type p \<notin> Some ` set validTypes \<Longrightarrow>
   zod_accepts (convertParameterToZodSchema p) v
   \<longleftrightarrow> (\<exists>s. effective_input p v = JStr s)"
  unfolding zod_accepts_effective [of p v]
  by (cases "effective_input p v") (simp_all add: zod_unknown_tag_core)

lemma obj_set_fresh: "k \<notin> fst ` set obj \<Longrightarrow> obj_set obj k v = obj @ [(k, v)]"
  by (induction obj) auto

lemma zodSchemaEntries_distinct:
  "distinct (map fst ps) \<Longrightarrow> fst ` set acc \<inter> fst ` set ps = {} \<Longrightarrow>
   zodSchemaEntries ps acc = acc @ map (\<lambda>(n, p). (n, property_schema p)) ps"
proof (induction ps arbitrary: acc)
  case Nil
  then show ?case by simp
next
  case (Cons e ps)
  obtain n p where e: "e = (n, p)" by (cases e)
  from Cons.prems e have fresh: "n \<notin> fst ` set acc" by auto
  let ?acc = "acc @ [(n, property_schema p)]"
  have "zodSchemaEntries (e # ps) acc = zodSchemaEntries ps ?acc"
    using fresh by (simp add: e obj_set_fresh property_schema_def Let_def)
  also have "\<dots> = ?acc @ map (\<lambda>(n, p). (n, property_schema p)) ps"
  proof (rule Cons.IH)
    show "distinct (map fst ps)" using Cons.prems by simp
    show "fst ` set ?acc \<inter> fst ` set ps = {}" using Cons.prems e by auto
  qed
  finally show ?case by (simp add: e)
qed

lemma jsonSchemaEntries_required:
  "snd (jsonSchemaEntries ps props req)
   = req @ map fst (filter (\<lambda>(n, p). truthy_flag (p_required p)) ps)"
  by (induction ps arbitrary: props req) auto

lemma object_validator_accepts:
  assumes "distinct (map fst params)"
  shows "zod_accepts (ZodObject (convertParametersToZodSchema params)) (JObj obj)
         \<longleftrightarrow> (\<forall>(n, p) \<in> set params. zod_accepts (property_schema p) (prop_value obj n))"
proof -
  have "convertParametersToZodSchema params = map (\<lambda>(n, p). (n, property_schema p)) params"
    using zodSchemaEntries_distinct [OF assms, of "[]"] by simp
  then show ?thesis
    by (auto simp: list_all_iff)
qed

lemma required_rejects_undefined:
  "truthy_flag (p_required p) \<Longrightarrow> p_default p = None \<Longrightarrow>
   \<not> zod_accepts (property_schema p) JUndefined"
  using zod_core_rejects_undefined [of p]
  by (simp add: property_schema_def zod_accepts_effective [of p] effective_input_def)

lemma optional_accepts_undefined:
  "\<not> truthy_flag (p_required p) \<Longrightarrow> zod_accepts (property_schema p) JUndefined"
  by (simp add: property_schema_def)

lemma obj_get_append_entry:
  "obj_get (obj @ [(k, v)]) k'
   = (case obj_get obj k' of Some x \<Rightarrow> Some x | None \<Rightarrow> if k' = k then Some v else None)"
  by (induction obj) (auto simp: obj_get_def)

lemma prop_value_missing: "obj_get obj k = None \<Longrightarrow> prop_value obj k = JUndefined"
  by (simp add: prop_value_def)

lemma distinct_filter_keys: "distinct (map fst ps) \<Longrightarrow> distinct (map fst (filter P ps))"
  by (induction ps) auto

lemma distinct_same_key:
  "distinct (map fst ps) \<Longrightarrow> (k, a) \<in> set ps \<Longrightarrow> (k, b) \<in> set ps \<Longrightarrow> a = b"
  by (induction ps) (auto simp: rev_image_eqI)

section \<open>Enum shapes (C1, C6)\<close>

text \<open>
  C1, as the code has it. For an enum shape with a non-empty value list
  \<open>first # others\<close>, both compilers choose the kind from \<open>first\<close>. The wire schema has
  type \<open>number\<close> when \<open>first\<close> is a number and \<open>string\<close> otherwise, and its \<open>enum\<close> is
  the declared list. When \<open>first\<close> is a number the validator accepts exactly the listed
  values, whatever their kind (a union of literals); otherwise it accepts exactly the
  strings of the list. An absent input is checked as the declared default, if any.
\<close>

theorem C1_enum_kind_from_first_value:
  assumes "p_type p = Some ''enum''" and "p_enum p = Some (first # others)"
  shows "s_type (convertParameterToJsonSchema p)
           = Some (if is_number first then ''number'' else ''string'')
       \<and> s_enum (convertParameterToJsonSchema p) = Some (first # others)
       \<and> (zod_accepts (convertParameterToZodSchema p) v \<longleftrightarrow>
            (if is_number first
             then effective_input p v \<in> enum_value ` set (first # others)
             else (\<exists>s. effective_input p v = JStr s \<and> EStr s \<in> set (first # others))))"
proof (intro conjI)
  show "s_type (convertParameterToJsonSchema p)
           = Some (if is_number first then ''number'' else ''string'')"
    by (simp add: json_enum [OF assms])
  show "s_enum (convertParameterToJsonSchema p) = Some (first # others)"
    by (simp add: json_enum [OF assms])
  show "zod_accepts (convertParameterToZodSchema p) v \<longleftrightarrow>
            (if is_number first
             then effective_input p v \<in> enum_value ` set (first # others)
             else (\<exists>s. effective_input p v = JStr s \<and> EStr s \<in> set (first # others)))"
    unfolding zod_accepts_effective [of p v] zod_enum_core [OF assms]
    by (cases "effective_input p v") (auto simp: list_ex_literal)
qed

text \<open>
  The shape \<open>{type: "enum", enum: [1, 2, 3], required: true}\<close>: type \<open>number\<close>, the list
  as \<open>enum\<close>, \<open>2\<close> accepted.
\<close>

theorem C1_enum_kind_witness:
  "p_type (ParameterConfig (Some ''enum'') None (Some True) None
             (Some [ENum 1, ENum 2, ENum 3]) None None) = Some ''enum''
   \<and> s_type (convertParameterToJsonSchema
        (ParameterConfig (Some ''enum'') None (Some True) None
           (Some [ENum 1, ENum 2, ENum 3]) None None)) = Some ''number''
   \<and> s_enum (convertParameterToJsonSchema
        (ParameterConfig (Some ''enum'') None (Some True) None
           (Some [ENum 1, ENum 2, ENum 3]) None None)) = Some [ENum 1, ENum 2, ENum 3]
   \<and> zod_accepts (convertParameterToZodSchema
        (ParameterConfig (Some ''enum'') None (Some True) None
           (Some [ENum 1, ENum 2, ENum 3]) None None)) (JNum 2)"
  using C1_enum_kind_from_first_value
    [of "ParameterConfig (Some ''enum'') None (Some True) None
           (Some [ENum 1, ENum 2, ENum 3]) None None" "ENum 1" "[ENum 2, ENum 3]" "JNum 2"]
  by (simp add: effective_input_def)

text \<open>
  The claim as written fails on \<open>{type: "enum", enum: [1, "a"]}\<close>: the first value is a
  number, and the validator accepts the string \<open>"a"\<close>, which is no numeric literal.
\<close>

theorem C1_mixed_enum_counterexample:
  "is_number (ENum 1)
   \<and> zod_accepts
       (convertParameterToZodSchema
          (ParameterConfig (Some ''enum'') None None None (Some [ENum 1, EStr ''a'']) None None))
       (JStr ''a'')"
  by (simp add: convertParameterToZodSchema.simps)

text \<open>
  C6, as the code has it. For an enum shape whose value list is empty or absent, the wire
  schema is \<open>{type: "string", enum: []}\<close>, with the description and the default of the
  shape when it declares them and no other key. The validator accepts an input exactly
  when the value it checks is the empty string: the empty string itself, and an absent
  input when the declared default is the empty string. Both functions are total.
\<close>

theorem C6_empty_enum:
  assumes "p_type p = Some ''enum''" and "p_enum p = None \<or> p_enum p = Some []"
  shows "convertParameterToJsonSchema p
           = JsonSchema (Some ''string'') None None None None (Some [])
               (copied_description p) (p_default p)
       \<and> (zod_accepts (convertParameterToZodSchema p) v \<longleftrightarrow> effective_input p v = JStr [])"
proof -
  from assms(2) have e: "no_enum_values (p_enum p)" by auto
  have "zod_accepts (convertParameterToZodSchema p) v \<longleftrightarrow> effective_input p v = JStr []"
    unfolding zod_accepts_effective [of p v] zod_empty_enum_core [OF assms(1) e]
    by (cases "effective_input p v") auto
  then show ?thesis by (simp add: json_empty_enum [OF assms(1) e])
qed

text \<open>The shape \<open>{type: "enum", enum: []}\<close> and the input \<open>"a"\<close>, which is rejected.\<close>

theorem C6_empty_enum_witness:
  "p_enum (ParameterConfig (Some ''enum'') None None None (Some []) None None) = Some []
   \<and> convertParameterToJsonSchema
        (ParameterConfig (Some ''enum'') None None None (Some []) None None)
      = JsonSchema (Some ''string'') None None None None (Some []) None None
   \<and> \<not> zod_accepts
          (convertParameterToZodSchema
             (ParameterConfig (Some ''enum'') None None None (Some []) None None))
          (JStr ''a'')"
  using C6_empty_enum
    [of "ParameterConfig (Some ''enum'') None None None (Some []) None None" "JStr ''a''"]
  by (simp add: effective_input_def copied_description_def)

text \<open>
  The claim as written fails on \<open>{type: "enum", default: ""}\<close>: the validator accepts an
  absent input, which is not the empty string.
\<close>

theorem C6_default_counterexample:
  "zod_accepts
     (convertParameterToZodSchema
        (ParameterConfig (Some ''enum'') None None (Some (JStr [])) None None None))
     JUndefined"
  by (simp add: convertParameterToZodSchema.simps)

section \<open>Required parameters (C2)\<close>

text \<open>
  C2, as the code has it. For a mapping of named shapes (its keys distinct), the
  \<open>required\<close> list of the wire schema is the list of the names whose shape has
  \<open>required\<close> set, in the order of the mapping, and the key is left out when there is no
  such name. The validator \<open>z.object(convertParametersToZodSchema(parameters))\<close> rejects
  an object that lacks a required property declaring no default; and a missing property
  that is not required plays no part: the object is accepted exactly when the validator
  of the other parameters accepts it. A missing required property that declares a
  default is validated as its default: the object is accepted exactly when it is with
  the default stored under that name.
\<close>

theorem C2_required_propagation:
  assumes "distinct (map fst params)"
  shows "s_required (convertParametersToJsonSchema params)
           = (let required = map fst (filter (\<lambda>(n, p). truthy_flag (p_required p)) params)
              in if required = [] then None else Some required)
       \<and> ((name, p) \<in> set params \<and> truthy_flag (p_required p) \<and> p_default p = None
            \<and> obj_get obj name = None
          \<longrightarrow> \<not> zod_accepts (ZodObject (convertParametersToZodSchema params)) (JObj obj))
       \<and> ((name, p) \<in> set params \<and> \<not> truthy_flag (p_required p) \<and> obj_get obj name = None
          \<longrightarrow> (zod_accepts (ZodObject (convertParametersToZodSchema params)) (JObj obj)
               \<longleftrightarrow> zod_accepts
                     (ZodObject (convertParametersToZodSchema (filter (\<lambda>(n, q). n \<noteq> name) params)))
                     (JObj obj)))
       \<and> ((name, p) \<in> set params \<and> truthy_flag (p_required p) \<and> p_default p = Some d
            \<and> obj_get obj name = None
          \<longrightarrow> (zod_accepts (ZodObject (convertParametersToZodSchema params)) (JObj obj)
               \<longleftrightarrow> zod_accepts (ZodObject (convertParametersToZodSchema params))
                     (JObj (obj @ [(name, d)]))))"
proof (intro conjI impI)
  obtain props req where e: "jsonSchemaEntries params [] [] = (props, req)"
    by (cases "jsonSchemaEntries params [] []")
  have "req = map fst (filter (\<lambda>(n, p). truthy_flag (p_required p)) params)"
    using jsonSchemaEntries_required [of params "[]" "[]"] e by simp
  then show "s_required (convertParametersToJsonSchema params)
           = (let required = map fst (filter (\<lambda>(n, p). truthy_flag (p_required p)) params)
              in if required = [] then None else Some required)"
    using e by (simp add: empty_schema_def Let_def)
next
  assume a: "(name, p) \<in> set params \<and> truthy_flag (p_required p) \<and> p_default p = None
            \<and> obj_get obj name = None"
  then have "\<not> zod_accepts (property_schema p) (prop_value obj name)"
    by (simp add: prop_value_missing required_rejects_undefined)
  with a show "\<not> zod_accepts (ZodObject (convertParametersToZodSchema params)) (JObj obj)"
    unfolding object_validator_accepts [OF assms] by blast
next
  assume a: "(name, p) \<in> set params \<and> \<not> truthy_flag (p_required p) \<and> obj_get obj name = None"
  let ?others = "filter (\<lambda>(n, q). n \<noteq> name) params"
  have d: "distinct (map fst ?others)" using assms by (rule distinct_filter_keys)
  have here: "zod_accepts (property_schema q) (prop_value obj name)"
    if "(name, q) \<in> set params" for q
  proof -
    from that a assms have "q = p" by (blast dest: distinct_same_key)
    with a show ?thesis by (simp add: prop_value_missing optional_accepts_undefined)
  qed
  show "zod_accepts (ZodObject (convertParametersToZodSchema params)) (JObj obj)
        \<longleftrightarrow> zod_accepts (ZodObject (convertParametersToZodSchema ?others)) (JObj obj)"
    unfolding object_validator_accepts [OF assms] object_validator_accepts [OF d]
    using here by auto
next
  assume a: "(name, p) \<in> set params \<and> truthy_flag (p_required p) \<and> p_default p = Some d
            \<and> obj_get obj name = None"
  let ?filled = "obj @ [(name, d)]"
  have same: "zod_accepts (property_schema q) (prop_value ?filled n)
              \<longleftrightarrow> zod_accepts (property_schema q) (prop_value obj n)"
    if "(n, q) \<in> set params" for n q
  proof (cases "n = name")
    case True
    with that a assms have q: "q = p" by (blast dest: distinct_same_key)
    from a True have "prop_value ?filled n = d" "prop_value obj n = JUndefined"
      by (simp_all add: prop_value_def obj_get_append_entry)
    moreover have "effective_input p d = d" "effective_input p JUndefined = d"
      using a by (simp_all add: effective_input_def)
    ultimately show ?thesis
      using a by (simp add: q property_schema_def zod_accepts_effective [of p])
  next
    case False
    then have "prop_value ?filled n = prop_value obj n"
      by (simp add: prop_value_def obj_get_append_entry split: option.splits)
    then show ?thesis by simp
  qed
  show "zod_accepts (ZodObject (convertParametersToZodSchema params)) (JObj obj)
        \<longleftrightarrow> zod_accepts (ZodObject (convertParametersToZodSchema params)) (JObj ?filled)"
    unfolding object_validator_accepts [OF assms]
    using same by auto
qed

text \<open>
  The mapping \<open>{a: {type: "string", required: true}, b: {type: "number"}}\<close>: the
  \<open>required\<close> list is \<open>["a"]\<close>, the validator rejects \<open>{b: 1}\<close> and accepts
  \<open>{a: "x"}\<close>. The mapping \<open>{n: {type: "number", required: true, default: 7}}\<close>:
  the validator accepts \<open>{}\<close>, as it accepts \<open>{n: 7}\<close>.
\<close>

theorem C2_required_propagation_witness:
  "distinct (map fst
      [(''a'', ParameterConfig (Some ''string'') None (Some True) None None None None),
       (''b'', ParameterConfig (Some ''number'') None None None None None None)])
   \<and> s_required (convertParametersToJsonSchema
        [(''a'', ParameterConfig (Some ''string'') None (Some True) None None None None),
         (''b'', ParameterConfig (Some ''number'') None None None None None None)])
      = Some [''a'']
   \<and> \<not> zod_accepts (ZodObject (convertParametersToZodSchema
        [(''a'', ParameterConfig (Some ''string'') None (Some True) None None None None),
         (''b'', ParameterConfig (Some ''number'') None None None None None None)]))
        (JObj [(''b'', JNum 1)])
   \<and> zod_accepts (ZodObject (convertParametersToZodSchema
        [(''a'', ParameterConfig (Some ''string'') None (Some True) None None None None),
         (''b'', ParameterConfig (Some ''number'') None None None None None None)]))
        (JObj [(''a'', JStr ''x'')])
   \<and> zod_accepts (ZodObject (convertParametersToZodSchema
        [(''n'', ParameterConfig (Some ''number'') None (Some True) (Some (JNum 7))
                  None None None)]))
        (JObj [])"
  using
    C2_required_propagation
      [of "[(''n'', ParameterConfig (Some ''number'') None (Some True) (Some (JNum 7))
                      None None None)]"
          "''n''" "ParameterConfig (Some ''number'') None (Some True) (Some (JNum 7))
                      None None None"
          "[]" "JNum 7"]
    C2_required_propagation
      [of "[(''a'', ParameterConfig (Some ''string'') None (Some True) None None None None),
            (''b'', ParameterConfig (Some ''number'') None None None None None None)]"
          "''a''" "ParameterConfig (Some ''string'') None (Some True) None None None None"
          "[(''b'', JNum 1)]"]
    C2_required_propagation
      [of "[(''a'', ParameterConfig (Some ''string'') None (Some True) None None None None),
            (''b'', ParameterConfig (Some ''number'') None None None None None None)]"
          "''b''" "ParameterConfig (Some ''number'') None None None None None None"
          "[(''a'', JStr ''x'')]"]
  by (simp add: obj_get_def prop_value_def convertParameterToZodSchema.simps)

text \<open>
  The claim as written fails on \<open>{a: {type: "string", required: true, default: "x"}}\<close>:
  the validator accepts the object \<open>{}\<close>, which lacks the required property \<open>a\<close>.
\<close>

theorem C2_required_default_counterexample:
  "truthy_flag (p_required
      (ParameterConfig (Some ''string'') None (Some True) (Some (JStr ''x'')) None None None))
   \<and> obj_get [] ''a'' = (None :: jsvalue option)
   \<and> zod_accepts (ZodObject (convertParametersToZodSchema
        [(''a'', ParameterConfig (Some ''string'') None (Some True) (Some (JStr ''x''))
                  None None None)]))
        (JObj [])"
  by (simp add: obj_get_def prop_value_def convertParameterToZodSchema.simps)

section \<open>Tags outside the six (C5)\<close>

text \<open>
  C5 asks both compilers to fall back to a string for a tag they do not know. The
  validator compiler does (its \<open>default\<close> branch gives \<open>z.string()\<close>); the wire compiler
  has no such branch: for \<open>{type: "integer"}\<close> it returns the empty schema \<open>{}\<close>, with
  no \<open>type\<close>.
\<close>

theorem C5_unknown_tag_wire_schema:
  "convertParameterToJsonSchema
     (ParameterConfig (Some ''integer'') None None None None None None) = empty_schema
   \<and> s_type (convertParameterToJsonSchema
        (ParameterConfig (Some ''integer'') None None None None None None)) = None
   \<and> convertParameterToZodSchema
        (ParameterConfig (Some ''integer'') None None None None None None) = ZodString"
  by (simp add: convertParameterToJsonSchema.simps convertParameterToZodSchema.simps
        empty_schema_def)

section \<open>Notions used in the statements about the merge engine\<close>

text \<open>The names that a comma-separated \<open>tools\<close> string lists.\<close>

definition tool_names :: "string \<Rightarrow> string list" where
  "tool_names s = map trim (split_comma s)"

text \<open>The set of tool names of a \<open>tools\<close> value.\<close>

fun token_set :: "Tools option \<Rightarrow> string set" where
  "token_set None = {}"
| "token_set (Some (ToolsString s)) = set (tool_names s)"
| "token_set (Some (ToolsObject obj)) = fst ` set obj"





section \<open>Facts about objects, strings and the merge engine\<close>



lemma obj_get_Cons: "obj_get ((k, v) # rest) k' = (if k' = k then Some v else obj_get rest k')"
  by (simp add: obj_get_def)






lemma split_comma_not_Nil: "split_comma s \<noteq> []"
  by (induction s) (auto split: list.splits)

lemma split_comma_no_comma: "CHR '','' \<notin> set x \<Longrightarrow> split_comma x = [x]"
  by (induction x) auto

lemma split_comma_append:
  "CHR '','' \<notin> set x \<Longrightarrow> split_comma (x @ CHR '','' # rest) = x # split_comma rest"
  by (induction x) auto

lemma split_comma_pieces: "x \<in> set (split_comma s) \<Longrightarrow> CHR '','' \<notin> set x"
proof (induction s arbitrary: x)
  case Nil
  then show ?case by simp
next
  case (Cons c s)
  then show ?case
    by (cases "split_comma s") (auto split: if_splits)
qed

lemma set_trim: "set (trim x) \<subseteq> set x"
proof -
  have "set (trim x) = set (dropWhile is_space (rev (dropWhile is_space x)))"
    by (simp add: trim_def)
  also have "\<dots> \<subseteq> set (rev (dropWhile is_space x))" by (rule set_dropWhileD[THEN subsetI])
  also have "\<dots> \<subseteq> set x" using set_dropWhileD by fastforce
  finally show ?thesis .
qed

lemma trim_space_Cons: "is_space c \<Longrightarrow> trim (c # x) = trim x"
  by (simp add: trim_def)

lemma dropWhile_unchanged: "ys = [] \<or> \<not> P (hd ys) \<Longrightarrow> dropWhile P ys = ys"
  by (cases ys) auto

lemma last_dropWhile: "dropWhile P w \<noteq> [] \<Longrightarrow> last (dropWhile P w) = last w"
  by (induction w) (auto split: if_splits)

lemma trimmed_ends:
  fixes x :: string
  defines "z \<equiv> dropWhile is_space (rev (dropWhile is_space x))"
  shows "dropWhile is_space (rev z) = rev z"
proof (cases "z = []")
  case True
  then show ?thesis by simp
next
  case False
  let ?y = "dropWhile is_space x"
  have y: "?y \<noteq> []"
  proof
    assume a: "?y = []"
    have "z = dropWhile is_space (rev [])" unfolding z_def a ..
    with False show False by simp
  qed
  have "hd (rev z) = last z" using False by (simp add: hd_rev)
  also have "\<dots> = last (rev ?y)" using False unfolding z_def by (rule last_dropWhile)
  also have "\<dots> = hd ?y" using y by (simp add: last_rev)
  finally have "\<not> is_space (hd (rev z))" using y hd_dropWhile by metis
  then show ?thesis by (simp add: dropWhile_unchanged)
qed

lemma trim_trim: "trim (trim x) = trim x"
  using trimmed_ends [of x] by (simp add: trim_def)

lemma trim_trimmed_space: "trim (CHR '' '' # trim x) = trim x"
  by (simp add: trim_space_Cons is_space_def trim_trim)

lemma join_Cons: "xs \<noteq> [] \<Longrightarrow> join sep (x # xs) = x @ sep @ join sep xs"
  by (cases xs) auto

lemma split_comma_join:
  assumes "\<forall>x \<in> set xs. CHR '','' \<notin> set x" and "xs \<noteq> []"
  shows "split_comma (join '', '' xs) = hd xs # map ((#) CHR '' '') (tl xs)"
  using assms(2,1)
proof (induction xs rule: list_nonempty_induct)
  case (single x)
  then show ?case by (simp add: split_comma_no_comma)
next
  case (cons x xs)
  have "join '', '' (x # xs) = x @ CHR '','' # (CHR '' '' # join '', '' xs)"
    using cons.hyps by (simp add: join_Cons)
  moreover have "split_comma (CHR '' '' # join '', '' xs)
        = (CHR '' '' # hd xs) # map ((#) CHR '' '') (tl xs)"
    using cons by simp
  ultimately show ?case
    using cons.prems cons.hyps by (cases xs) (simp_all add: split_comma_append)
qed

lemma tokens_of_join:
  assumes "\<forall>x \<in> set xs. CHR '','' \<notin> set x \<and> trim x = x" and "xs \<noteq> []"
  shows "map trim (split_comma (join '', '' xs)) = xs"
proof -
  have "split_comma (join '', '' xs) = hd xs # map ((#) CHR '' '') (tl xs)"
    using assms by (intro split_comma_join) auto
  moreover have "map trim (map ((#) CHR '' '') ys) = ys" if "\<forall>x \<in> set ys. trim x = x" for ys
    using that by (induction ys) (auto simp: trim_space_Cons is_space_def)
  ultimately show ?thesis
    using assms by (cases xs) auto
qed

lemma set_set_add_all: "set (set_add_all members xs) = set members \<union> set xs"
  by (induction xs arbitrary: members) auto

lemma distinct_set_add_all: "distinct members \<Longrightarrow> distinct (set_add_all members xs)"
  by (induction xs arbitrary: members) auto

lemma set_add_all_not_Nil: "xs \<noteq> [] \<Longrightarrow> set_add_all members xs \<noteq> []"
  using set_set_add_all [of members xs] by auto

lemma tool_names_clean: "x \<in> set (tool_names s) \<Longrightarrow> CHR '','' \<notin> set x \<and> trim x = x"
  using split_comma_pieces set_trim by (fastforce simp: tool_names_def trim_trim)

lemma tool_names_not_Nil: "tool_names s \<noteq> []"
  by (simp add: tool_names_def split_comma_not_Nil)

lemma mergeTools_strings:
  "t \<noteq> [] \<Longrightarrow> s \<noteq> [] \<Longrightarrow>
   mergeTools (Some (ToolsString t)) (Some (ToolsString s))
   = Some (ToolsString (join '', '' (array_from_set (tool_names t @ tool_names s))))"
  by (simp add: tool_names_def)

lemma tool_names_merged:
  "tool_names (join '', '' (array_from_set (tool_names t @ tool_names s)))
   = array_from_set (tool_names t @ tool_names s)"
  unfolding tool_names_def [of "join '', '' (array_from_set (tool_names t @ tool_names s))"]
proof (rule tokens_of_join)
  show "\<forall>x\<in>set (array_from_set (tool_names t @ tool_names s)). CHR '','' \<notin> set x \<and> trim x = x"
    using tool_names_clean by (auto simp: array_from_set_def set_set_add_all)
  show "array_from_set (tool_names t @ tool_names s) \<noteq> []"
    by (simp add: array_from_set_def set_add_all_not_Nil tool_names_not_Nil)
qed







section \<open>Merging declaration sets (C3)\<close>




section \<open>Merging tool references (C4, C9)\<close>




text \<open>
  C9, as the code has it. For two non-empty comma-separated strings, \<open>mergeTools\<close>
  returns the names of the first followed by the new names of the second, trimmed,
  without duplicates, joined by a comma and a space; the names read back from that string
  are exactly these, and their set is the union of the two sets of names. An empty
  string is falsy: the other side, when it is not empty, is then returned as it is, and
  two empty strings give \<open>undefined\<close>. For all strings, the set of names of the result
  does not depend on the order of the two arguments.
\<close>

theorem C9_merge_tool_strings:
  "(t \<noteq> [] \<and> s \<noteq> [] \<longrightarrow>
      mergeTools (Some (ToolsString t)) (Some (ToolsString s))
        = Some (ToolsString (join '', '' (array_from_set (tool_names t @ tool_names s))))
      \<and> tool_names (join '', '' (array_from_set (tool_names t @ tool_names s)))
        = array_from_set (tool_names t @ tool_names s)
      \<and> distinct (array_from_set (tool_names t @ tool_names s))
      \<and> set (array_from_set (tool_names t @ tool_names s))
        = set (tool_names t) \<union> set (tool_names s))
   \<and> token_set (mergeTools (Some (ToolsString t)) (Some (ToolsString s)))
     = token_set (mergeTools (Some (ToolsString s)) (Some (ToolsString t)))
   \<and> (s \<noteq> [] \<longrightarrow>
        mergeTools (Some (ToolsString [])) (Some (ToolsString s)) = Some (ToolsString s)
        \<and> mergeTools (Some (ToolsString s)) (Some (ToolsString [])) = Some (ToolsString s))
   \<and> mergeTools (Some (ToolsString [])) (Some (ToolsString [])) = None"
proof (intro conjI impI)
  assume ne: "t \<noteq> [] \<and> s \<noteq> []"
  then show "mergeTools (Some (ToolsString t)) (Some (ToolsString s))
        = Some (ToolsString (join '', '' (array_from_set (tool_names t @ tool_names s))))"
    by (simp add: mergeTools_strings del: mergeTools.simps)
next
  show "tool_names (join '', '' (array_from_set (tool_names t @ tool_names s)))
        = array_from_set (tool_names t @ tool_names s)"
    by (rule tool_names_merged)
next
  show "distinct (array_from_set (tool_names t @ tool_names s))"
    by (simp add: array_from_set_def distinct_set_add_all)
next
  show "set (array_from_set (tool_names t @ tool_names s))
        = set (tool_names t) \<union> set (tool_names s)"
    by (simp add: array_from_set_def set_set_add_all)
next
  have both: "token_set (mergeTools (Some (ToolsString a)) (Some (ToolsString b)))
        = set (tool_names a) \<union> set (tool_names b)" if "a \<noteq> []" "b \<noteq> []" for a b
    unfolding mergeTools_strings [OF that]
    by (simp add: tool_names_merged) (simp add: array_from_set_def set_set_add_all)
  show "token_set (mergeTools (Some (ToolsString t)) (Some (ToolsString s)))
     = token_set (mergeTools (Some (ToolsString s)) (Some (ToolsString t)))"
  proof (cases "t = [] \<or> s = []")
    case True
    then show ?thesis by auto
  next
    case False
    then show ?thesis by (simp add: both Un_commute del: mergeTools.simps)
  qed
next
  assume "s \<noteq> []"
  then show "mergeTools (Some (ToolsString [])) (Some (ToolsString s)) = Some (ToolsString s)"
    by simp
next
  assume "s \<noteq> []"
  then show "mergeTools (Some (ToolsString s)) (Some (ToolsString [])) = Some (ToolsString s)"
    by simp
next
  show "mergeTools (Some (ToolsString [])) (Some (ToolsString [])) = None"
    by simp
qed

text \<open>
  The strings \<open>"a,b"\<close> and \<open>"b,c"\<close>, merged in both orders, and the second merged
  into the empty string.
\<close>

theorem C9_merge_tool_strings_witness:
  "''a,b'' \<noteq> [] \<and> ''b,c'' \<noteq> []
   \<and> mergeTools (Some (ToolsString ''a,b'')) (Some (ToolsString ''b,c''))
     = Some (ToolsString ''a, b, c'')
   \<and> mergeTools (Some (ToolsString ''b,c'')) (Some (ToolsString ''a,b''))
     = Some (ToolsString ''b, c, a'')
   \<and> token_set (mergeTools (Some (ToolsString ''a,b'')) (Some (ToolsString ''b,c'')))
     = {''a'', ''b'', ''c''}
   \<and> mergeTools (Some (ToolsString [])) (Some (ToolsString ''b,c''))
     = Some (ToolsString ''b,c'')"
  using C9_merge_tool_strings [of "''a,b''" "''b,c''"]
    C9_merge_tool_strings [of "''b,c''" "''a,b''"]
  by (simp add: tool_names_def trim_def is_space_def array_from_set_def insert_commute)

text \<open>
  The claim as written fails on the strings \<open>""\<close> and \<open>"a,a"\<close>: the second is returned
  as it is, with its duplicate and without a space after the comma.
\<close>

theorem C9_empty_string_counterexample:
  "mergeTools (Some (ToolsString [])) (Some (ToolsString ''a,a'')) = Some (ToolsString ''a,a'')"
  by simp

section \<open>Validation of declared parameters (C10)\<close>

text \<open>
  The shapes nested in a shape, as the validation follows them: the shapes under
  \<open>properties\<close> of a shape tagged \<open>object\<close>, the shape under \<open>items\<close> of a shape
  tagged \<open>array\<close>, and the shapes nested in those. \<open>shapes_of_properties\<close> lists the
  shapes of a mapping together with all that are nested in them: for the \<open>parameters\<close>
  of a tool, these are its declared parameters at every depth.
\<close>

function nested_shapes :: "ParameterConfig \<Rightarrow> ParameterConfig list"
  and shapes_of_properties :: "(string \<times> ParameterConfig) list \<Rightarrow> ParameterConfig list"
where
  "nested_shapes p =
     (if p_type p = Some ''object''
      then (case p_properties p of Some ps \<Rightarrow> shapes_of_properties ps | None \<Rightarrow> [])
      else [])
     @ (if p_type p = Some ''array''
        then (case p_items p of Some items \<Rightarrow> items # nested_shapes items | None \<Rightarrow> [])
        else [])"
| "shapes_of_properties [] = []"
| "shapes_of_properties ((name, q) # rest) = q # nested_shapes q @ shapes_of_properties rest"
  by pat_completeness auto
termination
  by (relation "measure (\<lambda>x. case x of
         Inl p \<Rightarrow> 2 * size p
       | Inr ps \<Rightarrow> 2 * size_list (size_prod (\<lambda>_. 0) size) ps + 1)")
     (auto dest: size_p_items size_p_properties)

declare nested_shapes.simps [simp del]

text \<open>
  A shape passes when its tag is one of the six and, if the tag is \<open>enum\<close>, its value
  list is present and not empty.
\<close>

definition shape_ok :: "ParameterConfig \<Rightarrow> bool" where
  "shape_ok p \<longleftrightarrow>
     (case p_type p of Some t \<Rightarrow> t \<in> set validTypes | None \<Rightarrow> False)
     \<and> \<not> (p_type p = Some ''enum'' \<and> no_enum_values (p_enum p))"

lemma shape_ok_checks:
  "shape_ok p \<longleftrightarrow>
     \<not> no_type (p_type p) \<and> the (p_type p) \<in> set validTypes
     \<and> \<not> (p_type p = Some ''enum'' \<and> no_enum_values (p_enum p))"
  by (cases "p_type p") (auto simp: shape_ok_def validTypes_def)

lemma validate_nested:
  "(validateNestedParameter p path = None
      \<longleftrightarrow> \<not> (p_type p = Some ''enum'' \<and> no_enum_values (p_enum p))
          \<and> list_all shape_ok (nested_shapes p))"
  "(validateNestedProperties ps path = None \<longleftrightarrow> list_all shape_ok (shapes_of_properties ps))"
  "(validateItems p path = None \<longleftrightarrow> list_all shape_ok (p # nested_shapes p))"
proof (induction p path and ps path and p path
       rule: validateNestedParameter_validateNestedProperties_validateItems.induct)
  case (1 param path)
  show ?case
    apply (subst validateNestedParameter.simps)
    apply (subst nested_shapes.simps)
    using 1 by (auto split: option.splits)
next
  case (2 path)
  then show ?case by simp
next
  case (3 nestedName nestedParam rest path)
  show ?case
    using 3 shape_ok_checks [of nestedParam]
    by (auto split: option.splits)
next
  case (4 items path)
  show ?case
    apply (subst validateItems.simps)
    using 4 shape_ok_checks [of items]
    by (auto split: option.splits)
qed

lemma validateParameters_None:
  "validateParameters ps = None \<longleftrightarrow> list_all shape_ok (shapes_of_properties ps)"
proof (induction ps)
  case Nil
  then show ?case by simp
next
  case (Cons e ps)
  obtain name p where e: "e = (name, p)" by (cases e)
  have nested: "list_all shape_ok (nested_shapes p)
      \<longleftrightarrow> (if p_type p = Some ''object''
           then (case p_properties p of
                   Some properties \<Rightarrow> validateNestedProperties properties name
                 | None \<Rightarrow> None)
           else None) = None
          \<and> (if p_type p = Some ''array''
           then (case p_items p of Some items \<Rightarrow> validateItems items name | None \<Rightarrow> None)
           else None) = None"
    apply (subst nested_shapes.simps)
    using validate_nested(2,3) by (auto split: option.splits)
  show ?case
    unfolding e
    using Cons shape_ok_checks [of p] nested
    by (auto split: option.splits)
qed

text \<open>
  C10. When the named tool exists, \<open>validateToolConfig\<close> returns \<open>null\<close> exactly when
  every declared parameter, at the top level, under the properties of an object at any
  depth, or as the item shape of an array, has one of the six tags and, if it is an
  enum, a non-empty value list; otherwise it returns an error message.
\<close>

theorem C10_validateToolConfig:
  assumes "obj_get config toolName = Some (Some toolConfig)"
  shows "validateToolConfig config toolName = None
         \<longleftrightarrow> list_all shape_ok
               (shapes_of_properties
                  (case c_parameters toolConfig of Some ps \<Rightarrow> ps | None \<Rightarrow> []))"
  using assms
  by (cases "c_parameters toolConfig")
     (simp_all add: validateToolConfig_def validateParameters_None)

text \<open>
  A tool whose parameter \<open>settings\<close> is an object with a property \<open>level\<close>, an enum:
  with the values \<open>[1, 2]\<close> the declaration passes, with no values it does not.
\<close>

theorem C10_validateToolConfig_witness:
  "validateToolConfig
     [(''good'', Some \<lparr> c_prompt = None, c_context = None, c_tools = None, c_toolMode = None,
         c_description = None, c_disabled = None, c_name = None,
         c_parameters = Some
           [(''settings'', ParameterConfig (Some ''object'') None None None None None
               (Some [(''level'', ParameterConfig (Some ''enum'') None None None
                         (Some [ENum 1, ENum 2]) None None)]))] \<rparr>)]
     ''good'' = None
   \<and> validateToolConfig
       [(''bad'', Some \<lparr> c_prompt = None, c_context = None, c_tools = None, c_toolMode = None,
           c_description = None, c_disabled = None, c_name = None,
           c_parameters = Some
             [(''settings'', ParameterConfig (Some ''object'') None None None None None
                 (Some [(''level'', ParameterConfig (Some ''enum'') None None None
                           (Some []) None None)]))] \<rparr>)]
       ''bad'' \<noteq> None"
  using
    C10_validateToolConfig
      [of "[(''good'', Some \<lparr> c_prompt = None, c_context = None, c_tools = None,
              c_toolMode = None, c_description = None, c_disabled = None, c_name = None,
              c_parameters = Some
                [(''settings'', ParameterConfig (Some ''object'') None None None None None
                    (Some [(''level'', ParameterConfig (Some ''enum'') None None None
                              (Some [ENum 1, ENum 2]) None None)]))] \<rparr>)]"
          "''good''"
          "\<lparr> c_prompt = None, c_context = None, c_tools = None,
              c_toolMode = None, c_description = None, c_disabled = None, c_name = None,
              c_parameters = Some
                [(''settings'', ParameterConfig (Some ''object'') None None None None None
                    (Some [(''level'', ParameterConfig (Some ''enum'') None None None
                              (Some [ENum 1, ENum 2]) None None)]))] \<rparr>"]
    C10_validateToolConfig
      [of "[(''bad'', Some \<lparr> c_prompt = None, c_context = None, c_tools = None,
              c_toolMode = None, c_description = None, c_disabled = None, c_name = None,
              c_parameters = Some
                [(''settings'', ParameterConfig (Some ''object'') None None None None None
                    (Some [(''level'', ParameterConfig (Some ''enum'') None None None
                              (Some []) None None)]))] \<rparr>)]"
          "''bad''"
          "\<lparr> c_prompt = None, c_context = None, c_tools = None,
              c_toolMode = None, c_description = None, c_disabled = None, c_name = None,
              c_parameters = Some
                [(''settings'', ParameterConfig (Some ''object'') None None None None None
                    (Some [(''level'', ParameterConfig (Some ''enum'') None None None
                              (Some []) None None)]))] \<rparr>"]
  by (simp add: obj_get_Cons nested_shapes.simps shape_ok_def validTypes_def)

section \<open>The tools section of a prompt (C8)\<close>

text \<open>
  The line of one tool after its marker: the name; then a colon and the description, or
  a colon and the prompt, when only one of the two is present (present: not missing and
  not empty); a colon, the description, a hyphen between two spaces and the prompt when
  both are; then \<open>(Optional)\<close> when the flag is set; then a line feed.
\<close>

definition tool_line :: "ToolItem \<Rightarrow> string" where
  "tool_line tool =
     i_name tool
     @ (if truthy_string (i_description tool) \<and> truthy_string (i_prompt tool)
        then '': '' @ the (i_description tool) @ '' - '' @ the (i_prompt tool)
        else if truthy_string (i_description tool) then '': '' @ the (i_description tool)
        else if truthy_string (i_prompt tool) then '': '' @ the (i_prompt tool)
        else [])
     @ (if truthy_flag (i_optional tool) then '' (Optional)'' else [])
     @ [CHR 0x0A]"

text \<open>The header of the section, after the base text.\<close>

definition tools_header :: string where
  "tools_header = [CHR 0x0A, CHR 0x0A] @ ''## Available Tools'' @ [CHR 0x0A]"

lemma appendToolDetails_line:
  "appendToolDetails (acc @ i_name tool) tool = acc @ tool_line tool"
  by (simp add: appendToolDetails_def tool_line_def Let_def)

lemma appendSequential_lines:
  "appendSequential acc start tools
   = acc @ concat (map (\<lambda>(i, tool). decimal_digits (i + 1) @ ''. '' @ tool_line tool)
                      (enumerate start tools))"
proof (induction tools arbitrary: acc start)
  case Nil
  then show ?case by simp
next
  case (Cons tool tools)
  have "appendToolDetails (acc @ decimal_digits (start + 1) @ ''. '' @ i_name tool) tool
        = (acc @ decimal_digits (start + 1) @ ''. '') @ tool_line tool"
    using appendToolDetails_line [of "acc @ decimal_digits (start + 1) @ ''. ''" tool] by simp
  then show ?case
    using Cons.IH by simp
qed

lemma appendSituational_lines:
  "appendSituational acc tools
   = acc @ concat (map (\<lambda>tool. ''- '' @ tool_line tool) tools)"
proof (induction tools arbitrary: acc)
  case Nil
  then show ?case by simp
next
  case (Cons tool tools)
  have "appendToolDetails (acc @ ''- '' @ i_name tool) tool = (acc @ ''- '') @ tool_line tool"
    using appendToolDetails_line [of "acc @ ''- ''" tool] by simp
  then show ?case
    using Cons.IH by simp
qed

text \<open>
  C8, as the code has it. An empty list leaves the base text unchanged. For a non-empty
  list in either mode, the result is the base text, the header \<open>## Available Tools\<close>,
  the introduction of the mode, one line per tool (numbered from 1 in the sequential
  mode, with a bullet otherwise) and the closing note. In a line, the name is followed
  by a colon whenever a description or a prompt is present, and a description and a
  prompt that are both present are separated by \<open>" - "\<close>, an ASCII hyphen between two
  spaces; the suffix \<open>(Optional)\<close> is there exactly when the flag is set.
\<close>

theorem C8_appendFormattedTools:
  "appendFormattedTools baseText [] toolMode = baseText
   \<and> (toolsList \<noteq> [] \<longrightarrow>
        appendFormattedTools baseText toolsList toolMode
        = baseText @ tools_header
          @ (if toolMode = Some Sequential
             then sequential_intro
                  @ concat (map (\<lambda>(i, tool). decimal_digits (i + 1) @ ''. '' @ tool_line tool)
                              (enumerate 0 toolsList))
             else situational_intro
                  @ concat (map (\<lambda>tool. ''- '' @ tool_line tool) toolsList))
          @ next_steps_note)"
  by (simp add: appendFormattedTools_def tools_header_def appendSequential_lines
        appendSituational_lines Let_def)

text \<open>One tool with a description, a prompt and the flag, in the sequential mode.\<close>

theorem C8_appendFormattedTools_witness:
  "[\<lparr> i_name = ''a'', i_description = Some ''d'', i_prompt = Some ''p'',
       i_optional = Some True \<rparr>] \<noteq> []
   \<and> appendFormattedTools ''base''
       [\<lparr> i_name = ''a'', i_description = Some ''d'', i_prompt = Some ''p'',
           i_optional = Some True \<rparr>]
       (Some Sequential)
     = ''base'' @ tools_header @ sequential_intro @ ''1. a: d - p (Optional)'' @ [CHR 0x0A]
       @ next_steps_note"
  using C8_appendFormattedTools [of "''base''" "Some Sequential"
     "[\<lparr> i_name = ''a'', i_description = Some ''d'', i_prompt = Some ''p'',
          i_optional = Some True \<rparr>]"]
  by (simp add: tool_line_def decimal_digits.simps enumerate_eq_zip)

text \<open>
  The claim as written fails on a tool with a description and a prompt: the line is
  \<open>- a: d - p\<close>, with a colon after the name and a hyphen-minus between the description
  and the prompt; no en dash (in UTF-8 the bytes \<open>E2 80 93\<close>) occurs in the output.
\<close>

theorem C8_separator_counterexample:
  "appendFormattedTools []
     [\<lparr> i_name = ''a'', i_description = Some ''d'', i_prompt = Some ''p'', i_optional = None \<rparr>]
     None
   = tools_header @ situational_intro @ ''- a: d - p'' @ [CHR 0x0A] @ next_steps_note
   \<and> CHR 0xE2 \<notin> set (appendFormattedTools []
       [\<lparr> i_name = ''a'', i_description = Some ''d'', i_prompt = Some ''p'',
           i_optional = None \<rparr>]
       None)"
  by (simp add: appendFormattedTools_def tools_header_def appendToolDetails_def Let_def
        situational_intro_def next_steps_note_def)

section \<open>Template substitution (C7)\<close>

text \<open>
  C7 says that a token whose trimmed name is not a key of the arguments is left as it
  is, and the code says so of itself (\<open>Keep original placeholder if parameter not
  found\<close>). The two examples of the claim hold. But the code tests the name with \<open>in\<close>,
  which also finds the names that the arguments inherit from \<open>Object.prototype\<close>: for
  the template \<open>{{toString}}\<close> and the arguments \<open>{x: 1}\<close>, the token is replaced by the
  source text of the inherited method and \<open>toString\<close> is recorded as used, though it is
  no key of the arguments.
\<close>

theorem C7_inherited_name_replaced:
  "obj_get [(''x'', JNum 1)] ''toString'' = None
   \<and> processTemplate (Some ''{{toString}}'') (Some [(''x'', JNum 1)])
     = Some \<lparr> result = ''function toString() { [native code] }'',
              usedParams = [''toString''] \<rparr>
   \<and> processTemplate (Some ''{{x}}'') (Some [])
     = Some \<lparr> result = ''{{x}}'', usedParams = [] \<rparr>
   \<and> processTemplate (Some ''{{x}}'') (Some [(''x'', JNum 5)])
     = Some \<lparr> result = ''5'', usedParams = [''x''] \<rparr>"
  by code_simp

end
